theory Spec2Isabelle
  imports Complex_Main
begin

section \<open>Conventions of the embedding\<close>

text \<open>
  The development embeds the risk gate, the bet execution path, the tool dispatcher and
  the decision loop of \<^verbatim>\<open>bot.py\<close>, the order builder of \<^verbatim>\<open>trading.py\<close> and the
  research cache of \<^verbatim>\<open>research.py\<close>.

  \<^item> Python floats are idealised as exact rationals (\<^typ>\<open>rat\<close>): comparisons and
    arithmetic are exact, there is no NaN and no infinity. The constants \<^verbatim>\<open>15.0\<close>,
    \<^verbatim>\<open>0.20\<close>, \<^verbatim>\<open>0.25\<close>, \<^verbatim>\<open>30.0\<close> and \<^verbatim>\<open>5.0\<close> are the rationals they denote.
  \<^item> Arguments have the types the source annotates them with (\<^verbatim>\<open>amount: float\<close>,
    \<^verbatim>\<open>market_id: str\<close>, \<^verbatim>\<open>positions: List[dict]\<close>); a dictionary key that the
    source reads with \<^verbatim>\<open>.get(key, default)\<close> is an optional field, \<open>None\<close> when the
    key is absent.
  \<^item> Every raise of the source is a value: a function that can raise returns
    \<open>exn + 'a\<close>, with \<open>Inl\<close> the exception.
  \<^item> Calls that leave the process (network, files, clock, database, the reasoning
    oracle) are fields of an environment record over an arbitrary world state \<open>'w\<close>;
    each takes the world and returns its result, possibly an exception, and the next
    world. Theorems quantify over every environment.
  \<^item> \<^verbatim>\<open>print\<close> calls are left out.
\<close>

section \<open>Exceptions\<close>

text \<open>
  \<open>KeyError k\<close> is what \<^verbatim>\<open>d[k]\<close> raises on a missing key; \<open>Raised m\<close> is any other
  instance of \<^verbatim>\<open>Exception\<close>, kept by its message \<^verbatim>\<open>str(e)\<close>. \<open>py_str\<close> is
  \<^verbatim>\<open>str(e)\<close>: for a \<^verbatim>\<open>KeyError\<close> it is the \<^verbatim>\<open>repr\<close> of the key, which for the
  keys used here is the key between single quotes. What is not an instance of
  \<^verbatim>\<open>Exception\<close> (a keyboard interrupt, an exit of the interpreter) is outside the model.
\<close>

datatype exn = KeyError string | Raised string

fun py_str :: "exn \<Rightarrow> string" where
  "py_str (KeyError k) = [CHR 0x27] @ k @ [CHR 0x27]"
| "py_str (Raised m) = m"

section \<open>Number formatting\<close>

text \<open>
  \<^verbatim>\<open>f"{x:.2f}"\<close> on an exact rational: the value rounded to two decimals, ties to
  even, with a minus sign for a negative \<open>x\<close>.
\<close>

definition digit_char :: "nat \<Rightarrow> char" where
  "digit_char d = char_of (48 + d)"

fun show_nat :: "nat \<Rightarrow> string" where
  "show_nat n = (if n < 10 then [digit_char n] else show_nat (n div 10) @ [digit_char (n mod 10)])"

declare show_nat.simps [simp del]

definition round_half_even :: "rat \<Rightarrow> int" where
  "round_half_even x =
     (let f = \<lfloor>x\<rfloor>; d = x - of_int f
      in if d < 1 / 2 then f else if 1 / 2 < d then f + 1 else if even f then f else f + 1)"

definition fmt_2f :: "rat \<Rightarrow> string" where
  "fmt_2f x =
     (let n = nat (round_half_even (\<bar>x\<bar> * 100))
      in (if x < 0 then ''-'' else '''') @ show_nat (n div 100) @ ''.''
           @ [digit_char ((n mod 100) div 10), digit_char (n mod 10)])"

section \<open>Configuration (config.py)\<close>

definition MAX_SINGLE_BET :: rat where "MAX_SINGLE_BET = 15"
definition MAX_POSITION_PCT :: rat where "MAX_POSITION_PCT = 25 / 100"
definition MAX_DAILY_BETS :: rat where "MAX_DAILY_BETS = 30"
definition MIN_RESERVE_PCT :: rat where "MIN_RESERVE_PCT = 20 / 100"
definition MAX_RESEARCH_PER_CYCLE :: int where "MAX_RESEARCH_PER_CYCLE = 5"
definition MIN_LIQUIDITY :: rat where "MIN_LIQUIDITY = 5000"

section \<open>Risk manager (bot.py, class RiskManager)\<close>

text \<open>
  The balance dictionary of \<^verbatim>\<open>AccountService.get_balance\<close> and the position
  dictionaries of \<^verbatim>\<open>get_my_positions\<close>, key by key. \<open>p_market_id = None\<close> stands for
  a missing key and for the value \<^verbatim>\<open>None\<close> alike: \<^verbatim>\<open>p.get("market_id")\<close> is
  \<^verbatim>\<open>None\<close> in both cases.
\<close>

record balance =
  available_usdc :: "rat option"
  locked_usdc :: "rat option"
  total_usdc :: "rat option"
  error :: "string option"

record position =
  p_market_id :: "string option"
  p_market_title :: string
  p_side :: string
  p_amount :: rat
  p_entry_price :: rat
  p_current_price :: rat
  p_current_value :: "rat option"
  p_unrealized_pnl :: rat
  p_unrealized_pnl_pct :: rat

text \<open>\<^verbatim>\<open>self.daily_bets\<close>: ISO date string to the amount bet that day.\<close>

type_synonym ledger = "string \<rightharpoonup> rat"

text \<open>\<^verbatim>\<open>d.get(key, default)\<close> on an optional field.\<close>

definition get_or :: "'a option \<Rightarrow> 'a \<Rightarrow> 'a" where
  "get_or v d = (case v of None \<Rightarrow> d | Some x \<Rightarrow> x)"

text \<open>
  \<^verbatim>\<open>check_bet\<close>. \<open>today\<close> is \<^verbatim>\<open>date.today().isoformat()\<close> as read on entry and
  \<open>bets\<close> is \<^verbatim>\<open>self.daily_bets\<close>. The messages are the source's f-strings with
  the configuration constants formatted: \<^verbatim>\<open>f"{15.0}"\<close> is \<^verbatim>\<open>15.0\<close>,
  \<^verbatim>\<open>f"{0.20*100:.0f}"\<close> is \<^verbatim>\<open>20\<close>, \<^verbatim>\<open>f"{0.25*100:.0f}"\<close> is \<^verbatim>\<open>25\<close>.
\<close>

definition check_bet ::
  "rat \<Rightarrow> string \<Rightarrow> balance \<Rightarrow> position list \<Rightarrow> bool \<Rightarrow> string \<Rightarrow> ledger \<Rightarrow> bool \<times> string" where
  "check_bet amount market_id bal positions researched today bets =
     (if \<not> researched then (False, ''Must research market before betting'')
      else if amount > MAX_SINGLE_BET then (False, ''Single bet cannot exceed $15.0'')
      else
        let available = get_or (available_usdc bal) 0 in
        if amount > available
        then (False, ''Insufficient balance: $'' @ fmt_2f available @ '' available'')
        else
          let total = get_or (total_usdc bal) 0 in
          if available - amount < total * MIN_RESERVE_PCT
          then (False, ''Must maintain 20% reserve'')
          else
            let existing_position =
                  sum_list (map (\<lambda>p. get_or (p_current_value p) 0)
                                (filter (\<lambda>p. p_market_id p = Some market_id) positions)) in
            if existing_position + amount > total * MAX_POSITION_PCT
            then (False, ''Position would exceed 25% of balance'')
            else
              let daily_total = get_or (bets today) 0 in
              if daily_total + amount > MAX_DAILY_BETS
              then (False, ''Daily betting limit ($30.0) reached'')
              else (True, ''OK''))"

text \<open>\<^verbatim>\<open>record_bet\<close>: adds the amount under today's key, creating it if absent.\<close>

definition record_bet :: "rat \<Rightarrow> string \<Rightarrow> ledger \<Rightarrow> ledger" where
  "record_bet amount today bets = bets(today \<mapsto> get_or (bets today) 0 + amount)"

subsection \<open>The rule list as the specification words it\<close>




section \<open>JSON values and dictionaries\<close>

text \<open>
  A JSON-serialisable Python value. A dictionary is the list of its items in insertion
  order; \<^verbatim>\<open>None\<close> is \<open>JNull\<close>. \<^verbatim>\<open>json.dumps\<close> is Python's library function and is
  a parameter \<open>dumps\<close> of the functions that call it.
\<close>

datatype json =
    JNull
  | JBool bool
  | JNum rat
  | JStr string
  | JArr "json list"
  | JObj "(string \<times> json) list"

type_synonym pydict = "(string \<times> json) list"

text \<open>\<^verbatim>\<open>d.get(key, default)\<close> on a dictionary.\<close>

definition dict_get :: "pydict \<Rightarrow> string \<Rightarrow> json \<Rightarrow> json" where
  "dict_get d k dflt = (case map_of d k of None \<Rightarrow> dflt | Some v \<Rightarrow> v)"

text \<open>Python's truth value of a JSON value: what \<^verbatim>\<open>if not v\<close> tests.\<close>

fun truthy :: "json \<Rightarrow> bool" where
  "truthy JNull = False"
| "truthy (JBool b) = b"
| "truthy (JNum r) = (r \<noteq> 0)"
| "truthy (JStr s) = (s \<noteq> [])"
| "truthy (JArr xs) = (xs \<noteq> [])"
| "truthy (JObj kvs) = (kvs \<noteq> [])"

definition opt_item :: "string \<Rightarrow> ('a \<Rightarrow> json) \<Rightarrow> 'a option \<Rightarrow> pydict" where
  "opt_item k f v = (case v of None \<Rightarrow> [] | Some x \<Rightarrow> [(k, f x)])"

definition json_of_opt_dict :: "pydict option \<Rightarrow> json" where
  "json_of_opt_dict r = (case r of None \<Rightarrow> JNull | Some d \<Rightarrow> JObj d)"

definition json_of_balance :: "balance \<Rightarrow> json" where
  "json_of_balance b =
     JObj (opt_item ''available_usdc'' JNum (available_usdc b)
         @ opt_item ''locked_usdc'' JNum (locked_usdc b)
         @ opt_item ''total_usdc'' JNum (total_usdc b)
         @ opt_item ''error'' JStr (error b))"

definition json_of_position :: "position \<Rightarrow> json" where
  "json_of_position p =
     JObj ([(''market_id'', (case p_market_id p of None \<Rightarrow> JNull | Some m \<Rightarrow> JStr m)),
            (''market_title'', JStr (p_market_title p)),
            (''side'', JStr (p_side p)),
            (''amount'', JNum (p_amount p)),
            (''entry_price'', JNum (p_entry_price p)),
            (''current_price'', JNum (p_current_price p))]
         @ opt_item ''current_value'' JNum (p_current_value p)
         @ [(''unrealized_pnl'', JNum (p_unrealized_pnl p)),
            (''unrealized_pnl_pct'', JNum (p_unrealized_pnl_pct p))])"

section \<open>Bot state, tool input and environment (bot.py, class SurvivalBot)\<close>

text \<open>
  The fields of \<^verbatim>\<open>SurvivalBot\<close> that the embedded methods read or write;
  \<open>daily_bets\<close> is \<^verbatim>\<open>self.risk_manager.daily_bets\<close>.
\<close>

record bot =
  dry_run :: bool
  research_count :: int
  daily_bets :: ledger

text \<open>
  The input dictionary of a tool call, typed by the \<^verbatim>\<open>input_schema\<close> entries of
  \<^verbatim>\<open>TOOLS\<close>; a field is \<open>None\<close> when the oracle left the key out.
\<close>

record tool_input =
  ti_limit :: "int option"
  ti_min_liquidity :: "rat option"
  ti_category :: "string option"
  ti_market_id :: "string option"
  ti_market_title :: "string option"
  ti_focus :: "string option"
  ti_side :: "string option"
  ti_amount :: "rat option"

text \<open>The content blocks of an oracle response and the conversation messages.\<close>

datatype block =
    Text_block string
  | Tool_use_block string string tool_input
  | Other_block

record tool_result =
  tr_tool_use_id :: string
  tr_content :: string

datatype msg_content =
    Text_content string
  | Block_content "block list"
  | Result_content "tool_result list"

record message =
  role :: string
  content :: msg_content

text \<open>
  The collaborators, named by module and function. \<open>date_today\<close> is
  \<^verbatim>\<open>date.today().isoformat()\<close>. \<open>load_last_summary\<close> and \<open>save_summary\<close> are the file
  and database accesses of \<^verbatim>\<open>_load_last_summary\<close> and \<^verbatim>\<open>_save_summary\<close>, which
  catch every \<^verbatim>\<open>Exception\<close> themselves; \<open>save_summary\<close> takes \<^verbatim>\<open>self.dry_run\<close>,
  which the history row stores. \<open>trader_buy\<close> takes the slug, the outcome and the
  amount and returns the order response, a dictionary. Every collaborator returns or
  raises; a call that blocks for ever is outside the model.
\<close>

record 'w env =
  date_today :: "'w \<Rightarrow> string"
  load_last_summary :: "'w \<Rightarrow> string option \<times> 'w"
  save_summary :: "bool \<Rightarrow> string \<Rightarrow> 'w \<Rightarrow> 'w"
  client_messages_create :: "message list \<Rightarrow> 'w \<Rightarrow> (exn + block list) \<times> 'w"
  markets_get_markets_list :: "int \<Rightarrow> rat \<Rightarrow> string option \<Rightarrow> 'w \<Rightarrow> (exn + json) \<times> 'w"
  markets_get_market_detail :: "string \<Rightarrow> 'w \<Rightarrow> (exn + pydict option) \<times> 'w"
  research_get_research_result :: "string \<Rightarrow> 'w \<Rightarrow> (exn + pydict option) \<times> 'w"
  research_research_market_and_save ::
    "string \<Rightarrow> string \<Rightarrow> string option \<Rightarrow> 'w \<Rightarrow> (exn + pydict) \<times> 'w"
  account_get_balance :: "'w \<Rightarrow> (exn + balance) \<times> 'w"
  account_get_my_positions :: "'w \<Rightarrow> (exn + position list) \<times> 'w"
  trader_buy :: "json \<Rightarrow> string \<Rightarrow> rat \<Rightarrow> 'w \<Rightarrow> (exn + pydict) \<times> 'w"

subsection \<open>The bet path\<close>

definition dry_balance :: balance where
  "dry_balance = \<lparr>available_usdc = Some 100, locked_usdc = Some 0, total_usdc = Some 100,
                   error = None\<rparr>"

definition failure :: "string \<Rightarrow> json" where
  "failure message = JObj [(''success'', JBool False), (''message'', JStr message)]"

text \<open>The first statements of \<^verbatim>\<open>_execute_bet\<close>: the account snapshot.\<close>

definition bet_snapshot :: "'w env \<Rightarrow> bot \<Rightarrow> 'w \<Rightarrow> (exn + balance \<times> position list) \<times> 'w" where
  "bet_snapshot env s w =
     (if dry_run s then (Inr (dry_balance, []), w)
      else
        (case account_get_balance env w of
           (Inl e, w1) \<Rightarrow> (Inl e, w1)
         | (Inr bal, w1) \<Rightarrow>
             (case account_get_my_positions env w1 of
                (Inl e, w2) \<Rightarrow> (Inl e, w2)
              | (Inr positions, w2) \<Rightarrow> (Inr (bal, positions), w2))))"

text \<open>
  The \<^verbatim>\<open>try\<close> block of \<^verbatim>\<open>_execute_bet\<close> with its \<^verbatim>\<open>except Exception\<close> handler:
  the slug check, the order submission \<^verbatim>\<open>self.trader.buy\<close>, and only after it has
  returned, \<^verbatim>\<open>record_bet\<close>.
\<close>

definition submit_bet ::
  "(json \<Rightarrow> string) \<Rightarrow> 'w env \<Rightarrow> pydict \<Rightarrow> string \<Rightarrow> rat \<Rightarrow> bot \<Rightarrow> 'w \<Rightarrow> string \<times> bot \<times> 'w" where
  "submit_bet dumps env market side amount s w =
     (let outcome = (if side = ''YES'' then ''UP'' else ''DOWN'');
          slug = dict_get market ''slug'' (JStr '''')
      in if \<not> truthy slug then (dumps (failure ''Market slug not found''), s, w)
         else
           (case trader_buy env slug outcome amount w of
              (Inl e, w1) \<Rightarrow> (dumps (failure (''Trade failed: '' @ py_str e)), s, w1)
            | (Inr result, w1) \<Rightarrow>
                (dumps (JObj [(''success'', JBool True),
                              (''order_id'', dict_get result ''orderID'' (JStr ''unknown'')),
                              (''filled_amount'', JNum amount),
                              (''filled_price'', dict_get result ''price'' (JNum 0)),
                              (''message'', JStr ''Bet placed successfully'')]),
                 s\<lparr>daily_bets := record_bet amount (date_today env w1) (daily_bets s)\<rparr>,
                 w1)))"

text \<open>\<^verbatim>\<open>_execute_bet\<close>. An exception of a collaborator outside the \<^verbatim>\<open>try\<close> block leaves the function.\<close>

definition execute_bet ::
  "(json \<Rightarrow> string) \<Rightarrow> 'w env \<Rightarrow> string \<Rightarrow> string \<Rightarrow> rat \<Rightarrow> bot \<Rightarrow> 'w \<Rightarrow> (exn + string) \<times> bot \<times> 'w" where
  "execute_bet dumps env market_id side amount s w =
     (case bet_snapshot env s w of
        (Inl e, w2) \<Rightarrow> (Inl e, s, w2)
      | (Inr (bal, positions), w2) \<Rightarrow>
          (case research_get_research_result env market_id w2 of
             (Inl e, w3) \<Rightarrow> (Inl e, s, w3)
           | (Inr research, w3) \<Rightarrow>
               (let researched = (research \<noteq> None);
                    (allowed, message) =
                       check_bet amount market_id bal positions researched
                         (date_today env w3) (daily_bets s)
                in if \<not> allowed then (Inr (dumps (failure message)), s, w3)
                   else if dry_run s then
                     (Inr (dumps (JObj [(''success'', JBool True),
                                        (''order_id'', JStr ''DRY_RUN''),
                                        (''filled_amount'', JNum amount),
                                        (''filled_price'', JNum (1 / 2)),
                                        (''message'', JStr ''[DRY RUN] Bet would be placed'')])),
                      s, w3)
                   else
                     (case markets_get_market_detail env market_id w3 of
                        (Inl e, w4) \<Rightarrow> (Inl e, s, w4)
                      | (Inr None, w4) \<Rightarrow> (Inr (dumps (failure ''Market not found'')), s, w4)
                      | (Inr (Some market), w4) \<Rightarrow>
                          if market = [] then (Inr (dumps (failure ''Market not found'')), s, w4)
                          else (case submit_bet dumps env market side amount s w4 of
                                  (r, s5, w5) \<Rightarrow> (Inr r, s5, w5))))))"


subsection \<open>The tool dispatcher\<close>

definition error_payload :: "string \<Rightarrow> json" where
  "error_payload m = JObj [(''error'', JStr m)]"

text \<open>
  The body of the \<^verbatim>\<open>try\<close> block of \<^verbatim>\<open>execute_tool\<close>, one branch per tool name in
  the order of the \<^verbatim>\<open>if\<close>/\<^verbatim>\<open>elif\<close> chain. \<^verbatim>\<open>tool_input["k"]\<close> raises
  \<^verbatim>\<open>KeyError\<close> when the key is missing; arguments are evaluated left to right, so the
  first missing key is the one reported.
\<close>

definition dispatch ::
  "(json \<Rightarrow> string) \<Rightarrow> 'w env \<Rightarrow> string \<Rightarrow> tool_input \<Rightarrow> bot \<Rightarrow> 'w \<Rightarrow> (exn + string) \<times> bot \<times> 'w" where
  "dispatch dumps env tool_name inp s w =
     (if tool_name = ''get_markets_list'' then
        (case markets_get_markets_list env (get_or (ti_limit inp) 50)
                (get_or (ti_min_liquidity inp) MIN_LIQUIDITY) (ti_category inp) w of
           (Inl e, w1) \<Rightarrow> (Inl e, s, w1)
         | (Inr result, w1) \<Rightarrow> (Inr (dumps (JObj [(''markets'', result)])), s, w1))
      else if tool_name = ''get_market_detail'' then
        (case ti_market_id inp of
           None \<Rightarrow> (Inl (KeyError ''market_id''), s, w)
         | Some market_id \<Rightarrow>
             (case markets_get_market_detail env market_id w of
                (Inl e, w1) \<Rightarrow> (Inl e, s, w1)
              | (Inr result, w1) \<Rightarrow> (Inr (dumps (json_of_opt_dict result)), s, w1)))
      else if tool_name = ''get_research_result'' then
        (case ti_market_id inp of
           None \<Rightarrow> (Inl (KeyError ''market_id''), s, w)
         | Some market_id \<Rightarrow>
             (case research_get_research_result env market_id w of
                (Inl e, w1) \<Rightarrow> (Inl e, s, w1)
              | (Inr result, w1) \<Rightarrow> (Inr (dumps (json_of_opt_dict result)), s, w1)))
      else if tool_name = ''research_market_and_save'' then
        (if research_count s \<ge> MAX_RESEARCH_PER_CYCLE
         then (Inr (dumps (error_payload ''Research limit (5) reached this cycle'')), s, w)
         else
           (case ti_market_id inp of
              None \<Rightarrow> (Inl (KeyError ''market_id''), s, w)
            | Some market_id \<Rightarrow>
                (case ti_market_title inp of
                   None \<Rightarrow> (Inl (KeyError ''market_title''), s, w)
                 | Some market_title \<Rightarrow>
                     (case research_research_market_and_save env market_id market_title
                             (ti_focus inp) w of
                        (Inl e, w1) \<Rightarrow> (Inl e, s, w1)
                      | (Inr result, w1) \<Rightarrow>
                          (Inr (dumps (JObj result)),
                           s\<lparr>research_count := research_count s + 1\<rparr>, w1)))))
      else if tool_name = ''get_balance'' then
        (if dry_run s then
           (Inr (dumps (JObj [(''available_usdc'', JNum 100), (''locked_usdc'', JNum 0),
                              (''total_usdc'', JNum 100),
                              (''note'', JStr ''[DRY RUN] Simulated balance'')])), s, w)
         else
           (case account_get_balance env w of
              (Inl e, w1) \<Rightarrow> (Inl e, s, w1)
            | (Inr result, w1) \<Rightarrow> (Inr (dumps (json_of_balance result)), s, w1)))
      else if tool_name = ''get_my_positions'' then
        (if dry_run s then
           (Inr (dumps (JObj [(''positions'', JArr []),
                              (''note'', JStr ''[DRY RUN] Simulated'')])), s, w)
         else
           (case account_get_my_positions env w of
              (Inl e, w1) \<Rightarrow> (Inl e, s, w1)
            | (Inr result, w1) \<Rightarrow>
                (Inr (dumps (JObj [(''positions'', JArr (map json_of_position result))])), s, w1)))
      else if tool_name = ''place_bet'' then
        (case ti_market_id inp of
           None \<Rightarrow> (Inl (KeyError ''market_id''), s, w)
         | Some market_id \<Rightarrow>
             (case ti_side inp of
                None \<Rightarrow> (Inl (KeyError ''side''), s, w)
              | Some side \<Rightarrow>
                  (case ti_amount inp of
                     None \<Rightarrow> (Inl (KeyError ''amount''), s, w)
                   | Some amount \<Rightarrow> execute_bet dumps env market_id side amount s w)))
      else (Inr (dumps (error_payload (''Unknown tool: '' @ tool_name))), s, w))"

text \<open>\<^verbatim>\<open>execute_tool\<close>: the \<^verbatim>\<open>try\<close> block and its \<^verbatim>\<open>except Exception as e\<close> handler.\<close>

definition execute_tool ::
  "(json \<Rightarrow> string) \<Rightarrow> 'w env \<Rightarrow> string \<Rightarrow> tool_input \<Rightarrow> bot \<Rightarrow> 'w \<Rightarrow> string \<times> bot \<times> 'w" where
  "execute_tool dumps env tool_name inp s w =
     (case dispatch dumps env tool_name inp s w of
        (Inl e, s1, w1) \<Rightarrow> (dumps (error_payload (py_str e)), s1, w1)
      | (Inr r, s1, w1) \<Rightarrow> (r, s1, w1))"

subsection \<open>The decision loop\<close>

fun is_tool_use :: "block \<Rightarrow> bool" where
  "is_tool_use (Tool_use_block i n inp) = True"
| "is_tool_use b = False"

text \<open>\<^verbatim>\<open>"".join(b.text for b in response.content if hasattr(b, "text"))\<close>\<close>

fun final_text :: "block list \<Rightarrow> string" where
  "final_text [] = []"
| "final_text (Text_block t # bs) = t @ final_text bs"
| "final_text (b # bs) = final_text bs"

text \<open>
  The \<^verbatim>\<open>for tool_use in tool_uses\<close> loop: the tools run in the order of the response,
  each result is appended to \<^verbatim>\<open>tool_results\<close>. The list holds tool-use blocks only.
\<close>

fun execute_tool_uses ::
  "(json \<Rightarrow> string) \<Rightarrow> 'w env \<Rightarrow> block list \<Rightarrow> tool_result list \<Rightarrow> bot \<Rightarrow> 'w
     \<Rightarrow> tool_result list \<times> bot \<times> 'w" where
  "execute_tool_uses dumps env [] tool_results s w = (tool_results, s, w)"
| "execute_tool_uses dumps env (Tool_use_block i n inp # rest) tool_results s w =
     (case execute_tool dumps env n inp s w of
        (result, s1, w1) \<Rightarrow>
          execute_tool_uses dumps env rest
            (tool_results @ [\<lparr>tr_tool_use_id = i, tr_content = result\<rparr>]) s1 w1)"
| "execute_tool_uses dumps env (b # rest) tool_results s w =
     execute_tool_uses dumps env rest tool_results s w"

definition max_iterations :: nat where
  "max_iterations = 20"

text \<open>The report returned when the loop runs out: a warning sign (U+26A0 U+FE0F in UTF-8) and the text.\<close>

definition ceiling_report :: string where
  "ceiling_report =
     [CHR 0xE2, CHR 0x9A, CHR 0xA0, CHR 0xEF, CHR 0xB8, CHR 0x8F] @ '' Maximum iterations reached''"

text \<open>
  The \<^verbatim>\<open>while iteration < max_iterations\<close> loop of \<^verbatim>\<open>run_cycle\<close>, from the values
  of \<^verbatim>\<open>iteration\<close> and \<^verbatim>\<open>messages\<close> at the loop head. The result is the returned
  report, or the exception of the oracle call, which nothing catches, with the final values
  of \<^verbatim>\<open>iteration\<close> and \<^verbatim>\<open>messages\<close>, the bot and the world. \<^verbatim>\<open>iteration\<close> is
  incremented once before each oracle call, so its final value is the number of turns.
\<close>

function run_loop ::
  "(json \<Rightarrow> string) \<Rightarrow> 'w env \<Rightarrow> nat \<Rightarrow> message list \<Rightarrow> bot \<Rightarrow> 'w
     \<Rightarrow> (exn + string) \<times> nat \<times> message list \<times> bot \<times> 'w" where
  "run_loop dumps env iteration messages s w =
     (if iteration < max_iterations then
        (case client_messages_create env messages w of
           (Inl e, w1) \<Rightarrow> (Inl e, iteration + 1, messages, s, w1)
         | (Inr response_content, w1) \<Rightarrow>
             (let tool_uses = filter is_tool_use response_content
              in if tool_uses = [] then
                   (Inr (final_text response_content), iteration + 1, messages, s,
                    save_summary env (dry_run s) (final_text response_content) w1)
                 else
                   (case execute_tool_uses dumps env tool_uses [] s w1 of
                      (tool_results, s2, w2) \<Rightarrow>
                        run_loop dumps env (iteration + 1)
                          (messages @ [\<lparr>role = ''assistant'', content = Block_content response_content\<rparr>,
                                       \<lparr>role = ''user'', content = Result_content tool_results\<rparr>])
                          s2 w2)))
      else (Inr ceiling_report, iteration, messages, s, w))"
  by pat_completeness auto
termination
  by (relation "measure (\<lambda>(dumps, env, iteration, messages, s, w). max_iterations - iteration)") auto

declare run_loop.simps [simp del]

text \<open>\<^verbatim>\<open>_build_user_message\<close>; \<^verbatim>\<open>if last_summary\<close> is false for \<^verbatim>\<open>None\<close> and for the empty string.\<close>

definition build_user_message :: "string option \<Rightarrow> string" where
  "build_user_message last_summary =
     (case last_summary of
        None \<Rightarrow> ''Start this trading cycle. (First run, no previous summary)''
      | Some t \<Rightarrow>
          if t = [] then ''Start this trading cycle. (First run, no previous summary)''
          else ''## Previous Cycle Summary'' @ [CHR 0x0A] @ t @ [CHR 0x0A, CHR 0x0A] @ ''---''
               @ [CHR 0x0A]
               @ ''Start this trading cycle. Review the previous summary above and continue from where you left off.''
               @ [CHR 0x0A])"

text \<open>\<^verbatim>\<open>run_cycle\<close>: the first message, then the loop from \<^verbatim>\<open>iteration = 0\<close>.\<close>

definition run_cycle ::
  "(json \<Rightarrow> string) \<Rightarrow> 'w env \<Rightarrow> bot \<Rightarrow> 'w \<Rightarrow> (exn + string) \<times> nat \<times> message list \<times> bot \<times> 'w" where
  "run_cycle dumps env s w =
     (case load_last_summary env w of
        (last_summary, w0) \<Rightarrow>
          run_loop dumps env 0
            [\<lparr>role = ''user'', content = Text_content (build_user_message last_summary)\<rparr>] s w0)"


section \<open>Order builder (trading.py, class PolymarketTrader)\<close>

text \<open>
  The order book as \<^verbatim>\<open>create_market_order\<close> reads it: each side is the list of its
  entries in the order the exchange returned them, or \<open>None\<close> when the attribute is
  missing or is \<^verbatim>\<open>None\<close>. An entry's price is the number \<^verbatim>\<open>float(entry.price)\<close>.
\<close>

record order_summary =
  os_price :: rat
  os_size :: rat

record order_book =
  asks :: "order_summary list option"
  bids :: "order_summary list option"

definition BUY :: string where "BUY = ''BUY''"
definition SELL :: string where "SELL = ''SELL''"

text \<open>The \<^verbatim>\<open>OrderArgs\<close> an order is created from.\<close>

record order_args =
  oa_token_id :: string
  oa_price :: rat
  oa_size :: rat
  oa_side :: string
  oa_fee_rate_bps :: int

definition MIN_SHARES :: rat where "MIN_SHARES = 5"

text \<open>
  \<^verbatim>\<open>Decimal(str(x)).quantize(Decimal(10) ** -places, rounding=ROUND_DOWN)\<close>: the digits
  after the given place are dropped (rounding toward zero). \<^verbatim>\<open>quantize\<close> raises
  \<^verbatim>\<open>InvalidOperation\<close> when the result needs more digits than the context precision, 28.
\<close>

definition invalid_operation :: exn where
  "invalid_operation = Raised (''[<class '' @ [CHR 0x27] @ ''decimal.InvalidOperation'' @ [CHR 0x27] @ ''>]'')"

definition quantize_down :: "nat \<Rightarrow> rat \<Rightarrow> exn + rat" where
  "quantize_down places x =
     (let n = \<lfloor>\<bar>x\<bar> * 10 ^ places\<rfloor>
      in if n \<ge> 10 ^ 28 then Inl invalid_operation
         else Inr (sgn x * of_int n / 10 ^ places))"

text \<open>
  \<^verbatim>\<open>create_limit_order\<close> up to the \<^verbatim>\<open>OrderArgs\<close> it hands to the signing client. The
  second component of the result is the final value of the local variable \<^verbatim>\<open>amount\<close>,
  the notional the function reports after its adjustment.
\<close>

definition create_limit_order ::
  "string \<Rightarrow> string \<Rightarrow> rat \<Rightarrow> rat \<Rightarrow> string \<Rightarrow> exn + order_args \<times> rat" where
  "create_limit_order token_id side price amount outcome =
     (if price = 0 then Inl (Raised ''float division by zero'')
      else
        let shares = amount / price;
            (amount1, shares1) =
               (if shares < MIN_SHARES then (MIN_SHARES * price, MIN_SHARES) else (amount, shares))
        in case quantize_down 2 price of
             Inl e \<Rightarrow> Inl e
           | Inr price_decimal \<Rightarrow>
               (case quantize_down 4 shares1 of
                  Inl e \<Rightarrow> Inl e
                | Inr shares_decimal \<Rightarrow>
                    Inr (\<lparr>oa_token_id = token_id, oa_price = price_decimal,
                          oa_size = shares_decimal, oa_side = side, oa_fee_rate_bps = 0\<rparr>,
                         amount1)))"

text \<open>
  \<^verbatim>\<open>create_market_order\<close>. \<open>client_get_order_book\<close> is the exchange client's call behind
  \<^verbatim>\<open>get_orderbook(token_id)\<close>. \<^verbatim>\<open>book.asks[-1]\<close> is the last entry of the list.
\<close>

definition create_market_order ::
  "(string \<Rightarrow> exn + order_book) \<Rightarrow> string \<Rightarrow> string \<Rightarrow> rat \<Rightarrow> string \<Rightarrow> exn + order_args \<times> rat" where
  "create_market_order client_get_order_book token_id side amount outcome =
     (case client_get_order_book token_id of
        Inl e \<Rightarrow> Inl e
      | Inr book \<Rightarrow>
          if side = BUY then
            (case asks book of
               None \<Rightarrow> Inl (Raised ''Cannot get ask price'')
             | Some [] \<Rightarrow> Inl (Raised ''Cannot get ask price'')
             | Some (a # rest) \<Rightarrow>
                 create_limit_order token_id side (os_price (last (a # rest))) amount outcome)
          else
            (case bids book of
               None \<Rightarrow> Inl (Raised ''Cannot get bid price'')
             | Some [] \<Rightarrow> Inl (Raised ''Cannot get bid price'')
             | Some (b # rest) \<Rightarrow>
                 create_limit_order token_id side (os_price (last (b # rest))) amount outcome))"

text \<open>
  The specification's reading of the price a market order takes: the least favourable
  resting price of the relevant side, which for a buyer is the highest ask and for a
  seller the lowest bid.
\<close>

definition least_favourable_ask :: "order_summary list \<Rightarrow> rat" where
  "least_favourable_ask entries = Max (set (map os_price entries))"

definition least_favourable_bid :: "order_summary list \<Rightarrow> rat" where
  "least_favourable_bid entries = Min (set (map os_price entries))"

section \<open>Research cache (research.py, class ResearchService)\<close>













section \<open>Sequences of recorded bets\<close>

text \<open>
  The ledgers a sequence of \<^verbatim>\<open>record_bet\<close> calls goes through on one day: the ledger
  before the first call, then the ledger after each call.
\<close>

fun record_bets :: "rat list \<Rightarrow> string \<Rightarrow> ledger \<Rightarrow> ledger list" where
  "record_bets [] today bets = [bets]"
| "record_bets (amount # amounts) today bets =
     bets # record_bets amounts today (record_bet amount today bets)"

text \<open>\<^verbatim>\<open>self.daily_bets.get(today, 0)\<close>\<close>

definition daily_total :: "string \<Rightarrow> ledger \<Rightarrow> rat" where
  "daily_total today bets = get_or (bets today) 0"


section \<open>Counting the research calls\<close>

text \<open>
  An environment that behaves as the given one and counts, beside its world, how often
  \<^verbatim>\<open>research_market_and_save\<close> was called and how often it returned normally. No
  collaborator reads the counters.
\<close>

definition keep_count ::
  "('w \<Rightarrow> 'a \<times> 'w) \<Rightarrow> 'w \<times> nat \<times> nat \<Rightarrow> 'a \<times> 'w \<times> nat \<times> nat" where
  "keep_count f = (\<lambda>(w, c). case f w of (x, w1) \<Rightarrow> (x, w1, c))"

definition count_research ::
  "('w \<Rightarrow> (exn + pydict) \<times> 'w) \<Rightarrow> 'w \<times> nat \<times> nat \<Rightarrow> (exn + pydict) \<times> 'w \<times> nat \<times> nat" where
  "count_research f =
     (\<lambda>(w, calls, returns).
        case f w of
          (Inl e, w1) \<Rightarrow> (Inl e, w1, calls + 1, returns)
        | (Inr r, w1) \<Rightarrow> (Inr r, w1, calls + 1, returns + 1))"

definition counting :: "'w env \<Rightarrow> ('w \<times> nat \<times> nat) env" where
  "counting env =
     \<lparr>date_today = (\<lambda>(w, c). date_today env w),
      load_last_summary = keep_count (load_last_summary env),
      save_summary = (\<lambda>d t (w, c). (save_summary env d t w, c)),
      client_messages_create = (\<lambda>m. keep_count (client_messages_create env m)),
      markets_get_markets_list = (\<lambda>l q c. keep_count (markets_get_markets_list env l q c)),
      markets_get_market_detail = (\<lambda>i. keep_count (markets_get_market_detail env i)),
      research_get_research_result = (\<lambda>i. keep_count (research_get_research_result env i)),
      research_research_market_and_save =
        (\<lambda>i t f. count_research (research_research_market_and_save env i t f)),
      account_get_balance = keep_count (account_get_balance env),
      account_get_my_positions = keep_count (account_get_my_positions env),
      trader_buy = (\<lambda>g u a. keep_count (trader_buy env g u a))\<rparr>"


definition research_returns :: "'w \<times> nat \<times> nat \<Rightarrow> nat" where
  "research_returns cw = snd (snd cw)"

text \<open>
  What one dispatch does to the counters: the number of normal returns of the research
  call and \<^verbatim>\<open>research_count\<close> move together, and \<^verbatim>\<open>research_count\<close> neither falls
  nor passes the limit.
\<close>

definition counters_agree :: "bot \<Rightarrow> 'w \<times> nat \<times> nat \<Rightarrow> bot \<Rightarrow> 'w \<times> nat \<times> nat \<Rightarrow> bool" where
  "counters_agree s cw s1 cw1 \<longleftrightarrow>
     int (research_returns cw1) - research_count s1 = int (research_returns cw) - research_count s
   \<and> research_count s \<le> research_count s1
   \<and> (research_count s \<le> MAX_RESEARCH_PER_CYCLE \<longrightarrow> research_count s1 \<le> MAX_RESEARCH_PER_CYCLE)"

section \<open>The tool names\<close>

text \<open>The names of the \<^verbatim>\<open>TOOLS\<close> manifest, which are the names \<^verbatim>\<open>execute_tool\<close> knows.\<close>

definition tool_names :: "string list" where
  "tool_names = [''get_markets_list'', ''get_market_detail'', ''get_research_result'',
                 ''research_market_and_save'', ''get_balance'', ''get_my_positions'', ''place_bet'']"

section \<open>A concrete environment\<close>

text \<open>
  An environment over the one-point world, for evaluating the functions at concrete
  inputs: the date is fixed, there is no previous summary, the oracle answers by a given
  function of the conversation, the account holds 100 USDC and no position, every market
  is researched and has a slug, and the research call and the order submission have the
  given outcomes. \<open>plain_dumps\<close> stands in for \<^verbatim>\<open>json.dumps\<close> there: it renders the
  items of a flat object.
\<close>

definition fixed_env ::
  "(message list \<Rightarrow> exn + block list) \<Rightarrow> (exn + pydict) \<Rightarrow> (exn + pydict) \<Rightarrow> unit env" where
  "fixed_env oracle research buy =
     \<lparr>date_today = (\<lambda>w. ''2026-01-01''),
      load_last_summary = (\<lambda>w. (None, w)),
      save_summary = (\<lambda>d t w. w),
      client_messages_create = (\<lambda>m w. (oracle m, w)),
      markets_get_markets_list = (\<lambda>l q c w. (Inr (JArr []), w)),
      markets_get_market_detail = (\<lambda>i w. (Inr (Some [(''slug'', JStr ''some-slug'')]), w)),
      research_get_research_result = (\<lambda>i w. (Inr (Some [(''market_id'', JStr i)]), w)),
      research_research_market_and_save = (\<lambda>i t f w. (research, w)),
      account_get_balance = (\<lambda>w. (Inr dry_balance, w)),
      account_get_my_positions = (\<lambda>w. (Inr [], w)),
      trader_buy = (\<lambda>g u a w. (buy, w))\<rparr>"

definition plain_dumps :: "json \<Rightarrow> string" where
  "plain_dumps j =
     (case j of
        JObj items \<Rightarrow>
          concat (map (\<lambda>(k, v). k @ ''='' @
                         (case v of JStr t \<Rightarrow> t
                                  | JBool b \<Rightarrow> (if b then ''true'' else ''false'')
                                  | JNum r \<Rightarrow> fmt_2f r
                                  | _ \<Rightarrow> ''...'') @ '';'') items)
      | _ \<Rightarrow> ''...'')"

definition no_input :: tool_input where
  "no_input = \<lparr>ti_limit = None, ti_min_liquidity = None, ti_category = None, ti_market_id = None,
               ti_market_title = None, ti_focus = None, ti_side = None, ti_amount = None\<rparr>"

definition new_bot :: "bool \<Rightarrow> bot" where
  "new_bot d = \<lparr>dry_run = d, research_count = 0, daily_bets = Map.empty\<rparr>"

section \<open>Theorems: the risk gate\<close>







text \<open>
  C10. \<^verbatim>\<open>check_bet\<close> has no positivity rule: every amount that is zero or negative is
  approved when the market is researched, the available balance is positive and covers
  the reserve, the total is positive, no position is held in the market and nothing was
  bet today.
\<close>

theorem check_bet_accepts_nonpositive_amount:
  assumes "amount \<le> 0" and "researched"
    and "available_usdc bal = Some a" and "total_usdc bal = Some t"
    and "0 < a" and "0 < t" and "t * MIN_RESERVE_PCT \<le> a"
    and "filter (\<lambda>p. p_market_id p = Some market_id) positions = []"
    and "bets today = None"
  shows "check_bet amount market_id bal positions researched today bets = (True, ''OK'')"
proof -
  have "\<not> amount > MAX_SINGLE_BET" using assms(1) by (simp add: MAX_SINGLE_BET_def)
  moreover have "\<not> amount > a" using assms(1,5) by simp
  moreover have "\<not> a - amount < t * MIN_RESERVE_PCT" using assms(1,7) by simp
  moreover have "\<not> 0 + amount > t * MAX_POSITION_PCT"
    using assms(1,6) by (simp add: MAX_POSITION_PCT_def)
  moreover have "\<not> 0 + amount > MAX_DAILY_BETS" using assms(1) by (simp add: MAX_DAILY_BETS_def)
  ultimately show ?thesis
    using assms(2,3,4,8,9) by (simp add: check_bet_def get_or_def)
qed

theorem check_bet_accepts_nonpositive_amount_witness:
  "check_bet 0 ''m'' dry_balance [] True ''2026-01-01'' Map.empty = (True, ''OK'')
   \<and> check_bet (- 5) ''m'' dry_balance [] True ''2026-01-01'' Map.empty = (True, ''OK'')"
  using check_bet_accepts_nonpositive_amount
          [of 0 True dry_balance 100 100 "''m''" "[]" Map.empty "''2026-01-01''"]
        check_bet_accepts_nonpositive_amount
          [of "- 5" True dry_balance 100 100 "''m''" "[]" Map.empty "''2026-01-01''"]
  by (simp add: dry_balance_def MIN_RESERVE_PCT_def)

subsection \<open>The daily ledger\<close>

lemma daily_total_record_bet:
  "daily_total today (record_bet amount today bets) = daily_total today bets + amount"
  by (simp add: daily_total_def record_bet_def get_or_def)

lemma record_bets_lower_bound:
  "\<forall>a \<in> set amounts. 0 \<le> a \<Longrightarrow> l \<in> set (record_bets amounts today bets) \<Longrightarrow>
   daily_total today bets \<le> daily_total today l"
proof (induction amounts arbitrary: bets)
  case Nil
  then show ?case by simp
next
  case (Cons a amounts)
  from Cons.prems(2) consider "l = bets" | "l \<in> set (record_bets amounts today (record_bet a today bets))"
    by auto
  then show ?case
  proof cases
    case 1
    then show ?thesis by simp
  next
    case 2
    have "daily_total today (record_bet a today bets) \<le> daily_total today l"
      using Cons.IH [OF _ 2] Cons.prems(1) by simp
    moreover have "0 \<le> a" using Cons.prems(1) by simp
    ultimately show ?thesis by (simp add: daily_total_record_bet)
  qed
qed

lemma record_bets_sorted:
  "\<forall>a \<in> set amounts. 0 \<le> a \<Longrightarrow>
   sorted (map (daily_total today) (record_bets amounts today bets))"
proof (induction amounts arbitrary: bets)
  case Nil
  then show ?case by simp
next
  case (Cons a amounts)
  have "0 \<le> a" using Cons.prems by simp
  have tail: "sorted (map (daily_total today) (record_bets amounts today (record_bet a today bets)))"
    using Cons.IH Cons.prems by simp
  have "\<forall>l \<in> set (record_bets amounts today (record_bet a today bets)).
          daily_total today bets \<le> daily_total today l"
  proof
    fix l assume l: "l \<in> set (record_bets amounts today (record_bet a today bets))"
    have "\<forall>x \<in> set amounts. 0 \<le> x" using Cons.prems by simp
    then have "daily_total today (record_bet a today bets) \<le> daily_total today l"
      using l by (rule record_bets_lower_bound)
    then show "daily_total today bets \<le> daily_total today l"
      using \<open>0 \<le> a\<close> by (simp add: daily_total_record_bet)
  qed
  then show ?case using tail by simp
qed

text \<open>
  C9, as stated, fails: \<^verbatim>\<open>check_bet\<close> approves a bet of 10 and then a bet of -5 on the
  same day, and recording them takes today's ledger value from 0 to 10 and down to 5.
\<close>

theorem approved_bets_decrease_ledger:
  "fst (check_bet 10 ''m'' dry_balance [] True ''2026-01-01'' Map.empty)
   \<and> fst (check_bet (- 5) ''m'' dry_balance [] True ''2026-01-01''
            (record_bet 10 ''2026-01-01'' Map.empty))
   \<and> map (daily_total ''2026-01-01'') (record_bets [10, - 5] ''2026-01-01'' Map.empty) = [0, 10, 5]
   \<and> daily_total ''2026-01-01'' (record_bet (- 5) ''2026-01-01'' (record_bet 10 ''2026-01-01'' Map.empty))
       < daily_total ''2026-01-01'' (record_bet 10 ''2026-01-01'' Map.empty)"
  by (simp add: check_bet_def dry_balance_def get_or_def record_bet_def daily_total_def
      MAX_SINGLE_BET_def MAX_POSITION_PCT_def MAX_DAILY_BETS_def MIN_RESERVE_PCT_def)

text \<open>
  C9, amended. Within one day, today's ledger value never decreases over a sequence of
  \<^verbatim>\<open>record_bet\<close> calls whose amounts are not negative: an approved bet of a non-negative
  amount leaves it at least as high as before, and over any sequence of non-negative
  amounts the successive values are in ascending order.
\<close>

theorem ledger_monotone_for_nonnegative_bets:
  "(fst (check_bet amount market_id bal positions researched today bets) \<and> 0 \<le> amount \<longrightarrow>
      daily_total today bets \<le> daily_total today (record_bet amount today bets))
   \<and> ((\<forall>a \<in> set amounts. 0 \<le> a) \<longrightarrow>
        sorted (map (daily_total today) (record_bets amounts today bets)))"
  using record_bets_sorted by (simp add: daily_total_record_bet)

theorem ledger_monotone_for_nonnegative_bets_witness:
  "fst (check_bet 10 ''m'' dry_balance [] True ''2026-01-01'' Map.empty)
   \<and> (0::rat) \<le> 10
   \<and> daily_total ''2026-01-01'' Map.empty
       \<le> daily_total ''2026-01-01'' (record_bet 10 ''2026-01-01'' Map.empty)
   \<and> sorted (map (daily_total ''2026-01-01'') (record_bets [10, 5] ''2026-01-01'' Map.empty))"
  using ledger_monotone_for_nonnegative_bets
          [of 10 "''m''" dry_balance "[]" True "''2026-01-01''" Map.empty "[10, 5]"]
  by (simp add: check_bet_def dry_balance_def get_or_def
      MAX_SINGLE_BET_def MAX_POSITION_PCT_def MAX_DAILY_BETS_def MIN_RESERVE_PCT_def)


section \<open>Theorems: the order builder\<close>











section \<open>Theorems: market orders\<close>

text \<open>
  C4, as stated, fails: the price is that of the last entry, which need not be the least
  favourable one. For a book listing the asks 0.60, 0.40 and the bids 0.30, 0.35 a BUY is
  priced at 0.40, the lowest and so the nearest ask, while the least favourable ask is
  0.60; a SELL is priced at 0.35, the highest bid, while the least favourable bid is 0.30.
  For a book with a single ask the price is that of the first entry of the list.
\<close>

theorem market_order_takes_nearest_price_when_listed_last:
  "create_market_order
     (\<lambda>t. Inr \<lparr>asks = Some [\<lparr>os_price = 60 / 100, os_size = 100\<rparr>, \<lparr>os_price = 40 / 100, os_size = 100\<rparr>],
               bids = Some [\<lparr>os_price = 30 / 100, os_size = 100\<rparr>, \<lparr>os_price = 35 / 100, os_size = 100\<rparr>]\<rparr>)
     ''t'' BUY 10 ''UP''
   = Inr (\<lparr>oa_token_id = ''t'', oa_price = 40 / 100, oa_size = 25, oa_side = BUY,
            oa_fee_rate_bps = 0\<rparr>, 10)
   \<and> least_favourable_ask [\<lparr>os_price = 60 / 100, os_size = 100\<rparr>, \<lparr>os_price = 40 / 100, os_size = 100\<rparr>]
       = 60 / 100
   \<and> create_market_order
     (\<lambda>t. Inr \<lparr>asks = Some [\<lparr>os_price = 60 / 100, os_size = 100\<rparr>, \<lparr>os_price = 40 / 100, os_size = 100\<rparr>],
               bids = Some [\<lparr>os_price = 30 / 100, os_size = 100\<rparr>, \<lparr>os_price = 35 / 100, os_size = 100\<rparr>]\<rparr>)
     ''t'' SELL 7 ''UP''
   = Inr (\<lparr>oa_token_id = ''t'', oa_price = 35 / 100, oa_size = 20, oa_side = SELL,
            oa_fee_rate_bps = 0\<rparr>, 7)
   \<and> least_favourable_bid [\<lparr>os_price = 30 / 100, os_size = 100\<rparr>, \<lparr>os_price = 35 / 100, os_size = 100\<rparr>]
       = 30 / 100
   \<and> create_market_order
     (\<lambda>t. Inr \<lparr>asks = Some [\<lparr>os_price = 40 / 100, os_size = 100\<rparr>], bids = Some []\<rparr>)
     ''t'' BUY 10 ''UP''
   = create_limit_order ''t'' BUY (os_price (hd [\<lparr>os_price = 40 / 100, os_size = 100\<rparr>])) 10 ''UP''"
  by (simp add: create_market_order_def create_limit_order_def quantize_down_def MIN_SHARES_def
      BUY_def SELL_def Let_def least_favourable_ask_def least_favourable_bid_def)

text \<open>
  C4, amended. \<^verbatim>\<open>create_market_order\<close> prices a BUY at the last entry of the asks list
  and any other side, SELL included, at the last entry of the bids list, whatever the
  order of the list; no other entry and nothing of the other side enters the price; and
  it raises when the relevant side is empty or absent, or when the book cannot be fetched.
\<close>

theorem create_market_order_uses_last_entry:
  "(client_get_order_book token_id = Inr book \<and> side = BUY \<and> asks book = Some entries
      \<and> entries \<noteq> [] \<longrightarrow>
      create_market_order client_get_order_book token_id side amount outcome
        = create_limit_order token_id side (os_price (last entries)) amount outcome)
   \<and> (client_get_order_book token_id = Inr book \<and> side \<noteq> BUY \<and> bids book = Some entries
      \<and> entries \<noteq> [] \<longrightarrow>
      create_market_order client_get_order_book token_id side amount outcome
        = create_limit_order token_id side (os_price (last entries)) amount outcome)
   \<and> (client_get_order_book token_id = Inr book \<and> side = BUY
      \<and> (asks book = None \<or> asks book = Some []) \<longrightarrow>
      create_market_order client_get_order_book token_id side amount outcome
        = Inl (Raised ''Cannot get ask price''))
   \<and> (client_get_order_book token_id = Inr book \<and> side \<noteq> BUY
      \<and> (bids book = None \<or> bids book = Some []) \<longrightarrow>
      create_market_order client_get_order_book token_id side amount outcome
        = Inl (Raised ''Cannot get bid price''))
   \<and> (client_get_order_book token_id = Inl e \<longrightarrow>
      create_market_order client_get_order_book token_id side amount outcome = Inl e)"
  by (cases entries) (auto simp: create_market_order_def)

text \<open>
  At two concrete books: with asks 0.52, 0.55 and bids 0.45, 0.48 a BUY is priced at 0.55
  and a SELL at 0.48; with no asks and an empty bids list both raise; and when the book
  cannot be fetched the exception of the fetch is raised.
\<close>

theorem create_market_order_uses_last_entry_witness:
  "create_market_order
     (\<lambda>t. Inr \<lparr>asks = Some [\<lparr>os_price = 52 / 100, os_size = 10\<rparr>, \<lparr>os_price = 55 / 100, os_size = 10\<rparr>],
                bids = Some [\<lparr>os_price = 45 / 100, os_size = 10\<rparr>, \<lparr>os_price = 48 / 100, os_size = 10\<rparr>]\<rparr>) ''t'' BUY 11 ''UP''
     = create_limit_order ''t'' BUY (55 / 100) 11 ''UP''
   \<and> create_market_order
     (\<lambda>t. Inr \<lparr>asks = Some [\<lparr>os_price = 52 / 100, os_size = 10\<rparr>, \<lparr>os_price = 55 / 100, os_size = 10\<rparr>],
                bids = Some [\<lparr>os_price = 45 / 100, os_size = 10\<rparr>, \<lparr>os_price = 48 / 100, os_size = 10\<rparr>]\<rparr>) ''t'' SELL 11 ''UP''
     = create_limit_order ''t'' SELL (48 / 100) 11 ''UP''
   \<and> BUY = ''BUY'' \<and> SELL \<noteq> BUY
   \<and> create_market_order (\<lambda>t. Inr \<lparr>asks = None, bids = Some []\<rparr>) ''t'' BUY 11 ''UP''
     = Inl (Raised ''Cannot get ask price'')
   \<and> create_market_order (\<lambda>t. Inr \<lparr>asks = None, bids = Some []\<rparr>) ''t'' SELL 11 ''UP''
     = Inl (Raised ''Cannot get bid price'')
   \<and> create_market_order (\<lambda>t. Inl (Raised ''timeout'')) ''t'' BUY 11 ''UP''
     = Inl (Raised ''timeout'')"
  using create_market_order_uses_last_entry
          [of "\<lambda>t. Inr \<lparr>asks = Some [\<lparr>os_price = 52 / 100, os_size = 10\<rparr>, \<lparr>os_price = 55 / 100, os_size = 10\<rparr>],
                bids = Some [\<lparr>os_price = 45 / 100, os_size = 10\<rparr>, \<lparr>os_price = 48 / 100, os_size = 10\<rparr>]\<rparr>" "''t''"
              "\<lparr>asks = Some [\<lparr>os_price = 52 / 100, os_size = 10\<rparr>, \<lparr>os_price = 55 / 100, os_size = 10\<rparr>],
                bids = Some [\<lparr>os_price = 45 / 100, os_size = 10\<rparr>, \<lparr>os_price = 48 / 100, os_size = 10\<rparr>]\<rparr>" BUY
              "[\<lparr>os_price = 52 / 100, os_size = 10\<rparr>, \<lparr>os_price = 55 / 100, os_size = 10\<rparr>]"
              11 "''UP''"]
        create_market_order_uses_last_entry
          [of "\<lambda>t. Inr \<lparr>asks = Some [\<lparr>os_price = 52 / 100, os_size = 10\<rparr>, \<lparr>os_price = 55 / 100, os_size = 10\<rparr>],
                bids = Some [\<lparr>os_price = 45 / 100, os_size = 10\<rparr>, \<lparr>os_price = 48 / 100, os_size = 10\<rparr>]\<rparr>" "''t''"
              "\<lparr>asks = Some [\<lparr>os_price = 52 / 100, os_size = 10\<rparr>, \<lparr>os_price = 55 / 100, os_size = 10\<rparr>],
                bids = Some [\<lparr>os_price = 45 / 100, os_size = 10\<rparr>, \<lparr>os_price = 48 / 100, os_size = 10\<rparr>]\<rparr>" SELL
              "[\<lparr>os_price = 45 / 100, os_size = 10\<rparr>, \<lparr>os_price = 48 / 100, os_size = 10\<rparr>]"
              11 "''UP''"]
        create_market_order_uses_last_entry
          [of "\<lambda>t. Inr \<lparr>asks = None, bids = Some []\<rparr>" "''t''" "\<lparr>asks = None, bids = Some []\<rparr>" BUY "[]" 11 "''UP''"]
        create_market_order_uses_last_entry
          [of "\<lambda>t. Inr \<lparr>asks = None, bids = Some []\<rparr>" "''t''" "\<lparr>asks = None, bids = Some []\<rparr>" SELL "[]" 11 "''UP''"]
        create_market_order_uses_last_entry
          [of "\<lambda>t. Inl (Raised ''timeout'')" "''t''" "\<lparr>asks = None, bids = Some []\<rparr>" BUY "[]" 11 "''UP''"
              "Raised ''timeout''"]
  by (simp add: BUY_def SELL_def)

section \<open>Theorems: the research cache\<close>







section \<open>Theorems: the bet path\<close>

lemma submit_bet_cases:
  assumes "submit_bet dumps env market side amount s w = (r, s1, w1)"
  shows "(s1 = s \<and> (\<exists>m. r = dumps (failure m)))
       \<or> (\<exists>result.
             trader_buy env (dict_get market ''slug'' (JStr ''''))
               (if side = ''YES'' then ''UP'' else ''DOWN'') amount w = (Inr result, w1)
           \<and> s1 = s\<lparr>daily_bets := record_bet amount (date_today env w1) (daily_bets s)\<rparr>)"
  using assms
  by (auto simp: submit_bet_def Let_def split: if_splits prod.splits sum.splits)

lemma submit_bet_exception:
  assumes "truthy (dict_get market ''slug'' (JStr ''''))"
    and "trader_buy env (dict_get market ''slug'' (JStr ''''))
           (if side = ''YES'' then ''UP'' else ''DOWN'') amount w = (Inl e, w1)"
  shows "submit_bet dumps env market side amount s w
           = (dumps (failure (''Trade failed: '' @ py_str e)), s, w1)"
  using assms by (simp add: submit_bet_def Let_def)

lemma execute_bet_rejected:
  assumes "bet_snapshot env s w = (Inr (bal, positions), w2)"
    and "research_get_research_result env market_id w2 = (Inr research, w3)"
    and "\<not> fst (check_bet amount market_id bal positions (research \<noteq> None)
                  (date_today env w3) (daily_bets s))"
  shows "execute_bet dumps env market_id side amount s w
           = (Inr (dumps (failure (snd (check_bet amount market_id bal positions (research \<noteq> None)
                                           (date_today env w3) (daily_bets s))))), s, w3)"
  using assms by (simp add: execute_bet_def Let_def case_prod_beta)

lemma execute_bet_submission_exception:
  assumes "bet_snapshot env s w = (Inr (bal, positions), w2)"
    and "research_get_research_result env market_id w2 = (Inr research, w3)"
    and "fst (check_bet amount market_id bal positions (research \<noteq> None)
                (date_today env w3) (daily_bets s))"
    and "\<not> dry_run s"
    and "markets_get_market_detail env market_id w3 = (Inr (Some market), w4)"
    and "truthy (dict_get market ''slug'' (JStr ''''))"
    and "trader_buy env (dict_get market ''slug'' (JStr ''''))
           (if side = ''YES'' then ''UP'' else ''DOWN'') amount w4 = (Inl e, w5)"
  shows "execute_bet dumps env market_id side amount s w
           = (Inr (dumps (failure (''Trade failed: '' @ py_str e))), s, w5)"
proof -
  have "market \<noteq> []" using assms(6) by (auto simp: dict_get_def)
  then show ?thesis
    using assms submit_bet_exception [OF assms(6,7), of dumps s]
    by (simp add: execute_bet_def Let_def case_prod_beta)
qed

lemma execute_bet_state:
  assumes "execute_bet dumps env market_id side amount s w = (r, s1, w1)"
  shows "s1 = s
       \<or> (\<exists>bal positions w2 research w3 market w4 result.
             bet_snapshot env s w = (Inr (bal, positions), w2)
           \<and> research_get_research_result env market_id w2 = (Inr research, w3)
           \<and> fst (check_bet amount market_id bal positions (research \<noteq> None)
                     (date_today env w3) (daily_bets s))
           \<and> \<not> dry_run s
           \<and> markets_get_market_detail env market_id w3 = (Inr (Some market), w4)
           \<and> trader_buy env (dict_get market ''slug'' (JStr ''''))
                (if side = ''YES'' then ''UP'' else ''DOWN'') amount w4 = (Inr result, w1)
           \<and> s1 = s\<lparr>daily_bets := record_bet amount (date_today env w1) (daily_bets s)\<rparr>)"
proof (cases "bet_snapshot env s w")
  case (Pair a w2)
  show ?thesis
  proof (cases a)
    case (Inl e)
    then show ?thesis using assms Pair by (simp add: execute_bet_def)
  next
    case (Inr bp)
    obtain bal positions where bp: "bp = (bal, positions)" by (cases bp)
    show ?thesis
    proof (cases "research_get_research_result env market_id w2")
      case rr: (Pair b w3)
      show ?thesis
      proof (cases b)
        case (Inl e)
        then show ?thesis using assms Pair Inr bp rr by (simp add: execute_bet_def)
      next
        case rs: (Inr research)
        let ?c = "check_bet amount market_id bal positions (research \<noteq> None)
                    (date_today env w3) (daily_bets s)"
        show ?thesis
        proof (cases "fst ?c \<and> \<not> dry_run s")
          case False
          then show ?thesis
            using assms Pair Inr bp rr rs
            by (auto simp: execute_bet_def Let_def case_prod_beta split: if_splits)
        next
          case True
          show ?thesis
          proof (cases "markets_get_market_detail env market_id w3")
            case md: (Pair c w4)
            show ?thesis
            proof (cases c)
              case (Inl e)
              then show ?thesis
                using assms Pair Inr bp rr rs True md
                by (simp add: execute_bet_def Let_def case_prod_beta)
            next
              case mk: (Inr mo)
              show ?thesis
              proof (cases mo)
                case None
                then show ?thesis
                  using assms Pair Inr bp rr rs True md mk
                  by (simp add: execute_bet_def Let_def case_prod_beta)
              next
                case (Some market)
                show ?thesis
                proof (cases "market = []")
                  case True
                  then show ?thesis
                    using assms Pair Inr bp rr rs \<open>fst ?c \<and> \<not> dry_run s\<close> md mk Some
                    by (simp add: execute_bet_def Let_def case_prod_beta)
                next
                  case False
                  obtain r5 s5 w5 where sb: "submit_bet dumps env market side amount s w4 = (r5, s5, w5)"
                    by (cases "submit_bet dumps env market side amount s w4") auto
                  have eq: "s1 = s5" "w1 = w5"
                    using assms Pair Inr bp rr rs \<open>fst ?c \<and> \<not> dry_run s\<close> md mk Some False sb
                    by (simp_all add: execute_bet_def Let_def case_prod_beta)
                  from submit_bet_cases [OF sb] show ?thesis
                  proof
                    assume "s5 = s \<and> (\<exists>m. r5 = dumps (failure m))"
                    then show ?thesis using eq by simp
                  next
                    assume "\<exists>result.
                       trader_buy env (dict_get market ''slug'' (JStr ''''))
                         (if side = ''YES'' then ''UP'' else ''DOWN'') amount w4 = (Inr result, w5)
                     \<and> s5 = s\<lparr>daily_bets := record_bet amount (date_today env w5) (daily_bets s)\<rparr>"
                    then show ?thesis
                      using eq Pair Inr bp rr rs \<open>fst ?c \<and> \<not> dry_run s\<close> md mk Some
                      by auto
                  qed
                qed
              qed
            qed
          qed
        qed
      qed
    qed
  qed
qed

text \<open>
  C2. In every execution of \<^verbatim>\<open>_execute_bet\<close> the bot is left as it was unless
  \<^verbatim>\<open>check_bet\<close> approved the bet and the submission \<^verbatim>\<open>trader.buy\<close> returned without
  raising, and then the only change is \<^verbatim>\<open>record_bet(amount)\<close> on the ledger; on a
  rejection by the risk gate the result is the \<open>success: false\<close> object with the gate's
  message, and on an exception of the submission it is the \<open>success: false\<close> object with
  the message \<open>Trade failed\<close> and the exception's text, the ledger unchanged in both cases.
\<close>

theorem execute_bet_records_only_after_submission:
  "(execute_bet dumps env market_id side amount s w = (r, s1, w1) \<longrightarrow>
      s1 = s
      \<or> (\<exists>bal positions w2 research w3 market w4 result.
            bet_snapshot env s w = (Inr (bal, positions), w2)
          \<and> research_get_research_result env market_id w2 = (Inr research, w3)
          \<and> fst (check_bet amount market_id bal positions (research \<noteq> None)
                    (date_today env w3) (daily_bets s))
          \<and> \<not> dry_run s
          \<and> markets_get_market_detail env market_id w3 = (Inr (Some market), w4)
          \<and> trader_buy env (dict_get market ''slug'' (JStr ''''))
               (if side = ''YES'' then ''UP'' else ''DOWN'') amount w4 = (Inr result, w1)
          \<and> s1 = s\<lparr>daily_bets := record_bet amount (date_today env w1) (daily_bets s)\<rparr>))
   \<and> (bet_snapshot env s w = (Inr (bal, positions), w2)
      \<and> research_get_research_result env market_id w2 = (Inr research, w3)
      \<and> \<not> fst (check_bet amount market_id bal positions (research \<noteq> None)
                  (date_today env w3) (daily_bets s)) \<longrightarrow>
      execute_bet dumps env market_id side amount s w
        = (Inr (dumps (failure (snd (check_bet amount market_id bal positions (research \<noteq> None)
                                        (date_today env w3) (daily_bets s))))), s, w3))
   \<and> (bet_snapshot env s w = (Inr (bal, positions), w2)
      \<and> research_get_research_result env market_id w2 = (Inr research, w3)
      \<and> fst (check_bet amount market_id bal positions (research \<noteq> None)
                (date_today env w3) (daily_bets s))
      \<and> \<not> dry_run s
      \<and> markets_get_market_detail env market_id w3 = (Inr (Some market), w4)
      \<and> truthy (dict_get market ''slug'' (JStr ''''))
      \<and> trader_buy env (dict_get market ''slug'' (JStr ''''))
           (if side = ''YES'' then ''UP'' else ''DOWN'') amount w4 = (Inl e, w5) \<longrightarrow>
      execute_bet dumps env market_id side amount s w
        = (Inr (dumps (failure (''Trade failed: '' @ py_str e))), s, w5))"
  using execute_bet_state [of dumps env market_id side amount s w r s1 w1]
    execute_bet_rejected [of env s w bal positions w2 market_id research w3 amount dumps side]
    execute_bet_submission_exception
      [of env s w bal positions w2 market_id research w3 amount market w4 side e w5 dumps]
  by blast


text \<open>
  At the concrete environment, with a live bot: a submission that raises leaves the
  ledger empty, a bet of 20 is rejected by the gate and leaves it empty, and a submission
  that returns records the 10 USDC under today's date.
\<close>

theorem execute_bet_records_only_after_submission_witness:
  "execute_bet plain_dumps (fixed_env (\<lambda>m. Inr []) (Inr []) (Inl (Raised ''timeout'')))
      ''m'' ''YES'' 10 (new_bot False) ()
     = (Inr (plain_dumps (failure ''Trade failed: timeout'')), new_bot False, ())
   \<and> execute_bet plain_dumps (fixed_env (\<lambda>m. Inr []) (Inr []) (Inl (Raised ''timeout'')))
      ''m'' ''YES'' 20 (new_bot False) ()
     = (Inr (plain_dumps (failure ''Single bet cannot exceed $15.0'')), new_bot False, ())
   \<and> execute_bet plain_dumps (fixed_env (\<lambda>m. Inr []) (Inr []) (Inr [(''orderID'', JStr ''o1'')]))
      ''m'' ''YES'' 10 (new_bot False) ()
     = (Inr (plain_dumps (JObj [(''success'', JBool True), (''order_id'', JStr ''o1''),
                                (''filled_amount'', JNum 10), (''filled_price'', JNum 0),
                                (''message'', JStr ''Bet placed successfully'')])),
        (new_bot False)\<lparr>daily_bets := [''2026-01-01'' \<mapsto> 10]\<rparr>, ())
   \<and> (new_bot False)\<lparr>daily_bets := [''2026-01-01'' \<mapsto> 10]\<rparr> \<noteq> new_bot False"
  using execute_bet_records_only_after_submission
          [where dumps = plain_dumps
             and env = "fixed_env (\<lambda>m. Inr []) (Inr []) (Inl (Raised ''timeout''))"
             and market_id = "''m''" and side = "''YES''" and amount = 10
             and s = "new_bot False" and w = "()" and bal = dry_balance and positions = "[]"
             and ?w2.0 = "()" and research = "Some [(''market_id'', JStr ''m'')]" and ?w3.0 = "()"
             and market = "[(''slug'', JStr ''some-slug'')]" and ?w4.0 = "()"
             and e = "Raised ''timeout''" and ?w5.0 = "()"]
        execute_bet_records_only_after_submission
          [where dumps = plain_dumps
             and env = "fixed_env (\<lambda>m. Inr []) (Inr []) (Inl (Raised ''timeout''))"
             and market_id = "''m''" and side = "''YES''" and amount = 20
             and s = "new_bot False" and w = "()" and bal = dry_balance and positions = "[]"
             and ?w2.0 = "()" and research = "Some [(''market_id'', JStr ''m'')]" and ?w3.0 = "()"]
        execute_bet_records_only_after_submission
          [where dumps = plain_dumps
             and env = "fixed_env (\<lambda>m. Inr []) (Inr []) (Inr [(''orderID'', JStr ''o1'')])"
             and market_id = "''m''" and side = "''YES''" and amount = 10
             and s = "new_bot False" and w = "()"
             and r = "Inr (plain_dumps (JObj [(''success'', JBool True), (''order_id'', JStr ''o1''),
                                (''filled_amount'', JNum 10), (''filled_price'', JNum 0),
                                (''message'', JStr ''Bet placed successfully'')]))"
             and ?s1.0 = "(new_bot False)\<lparr>daily_bets := [''2026-01-01'' \<mapsto> 10]\<rparr>"
             and ?w1.0 = "()"]
  by (simp add: execute_bet_def bet_snapshot_def submit_bet_def fixed_env_def new_bot_def
      check_bet_def dry_balance_def get_or_def dict_get_def record_bet_def failure_def
      MAX_SINGLE_BET_def MAX_POSITION_PCT_def MAX_DAILY_BETS_def MIN_RESERVE_PCT_def Let_def)


section \<open>Theorems: the tool dispatcher\<close>

lemma submit_bet_json: "\<exists>j. fst (submit_bet dumps env market side amount s w) = dumps j"
  by (auto simp: submit_bet_def Let_def split: prod.splits sum.splits)

lemma execute_bet_json:
  assumes "execute_bet dumps env market_id side amount s w = (Inr r, s1, w1)"
  shows "\<exists>j. r = dumps j"
proof -
  have sb: "\<And>market w4. \<exists>j. fst (submit_bet dumps env market side amount s w4) = dumps j"
    by (rule submit_bet_json)
  show ?thesis
    using assms
    by (auto simp: execute_bet_def Let_def case_prod_beta
        split: sum.splits option.splits if_splits)
       (metis sb fst_conv)+
qed

lemma dispatch_json:
  assumes "dispatch dumps env tool_name inp s w = (Inr r, s1, w1)"
  shows "\<exists>j. r = dumps j"
proof (cases "tool_name = ''place_bet''")
  case True
  then show ?thesis
    using assms
    by (auto simp: dispatch_def split: option.splits dest: execute_bet_json)
next
  case False
  then show ?thesis
    using assms
    by (auto simp: dispatch_def case_prod_beta split: sum.splits option.splits if_splits)
qed

lemma dispatch_unknown:
  assumes "tool_name \<notin> set tool_names"
  shows "dispatch dumps env tool_name inp s w
           = (Inr (dumps (error_payload (''Unknown tool: '' @ tool_name))), s, w)"
  using assms by (simp add: dispatch_def tool_names_def)

text \<open>
  C7. \<^verbatim>\<open>execute_tool\<close> returns a JSON string for every tool name and every input:
  its result is \<^verbatim>\<open>json.dumps\<close> of some value; when the dispatched handler raises
  \<open>e\<close> the result is exactly \<^verbatim>\<open>json.dumps({"error": str(e)})\<close>, and when the handler
  returns, the result is what it returned; a name that is none of the seven tools gives
  the \<open>error\<close> object naming the unknown tool.
\<close>

theorem execute_tool_never_raises:
  "(\<exists>j. fst (execute_tool dumps env tool_name inp s w) = dumps j)
   \<and> (dispatch dumps env tool_name inp s w = (Inl e, s1, w1) \<longrightarrow>
        execute_tool dumps env tool_name inp s w = (dumps (error_payload (py_str e)), s1, w1))
   \<and> (dispatch dumps env tool_name inp s w = (Inr r, s1, w1) \<longrightarrow>
        execute_tool dumps env tool_name inp s w = (r, s1, w1))
   \<and> (tool_name \<notin> set tool_names \<longrightarrow>
        execute_tool dumps env tool_name inp s w
          = (dumps (error_payload (''Unknown tool: '' @ tool_name)), s, w))
   \<and> error_payload (py_str e) = JObj [(''error'', JStr (py_str e))]"
proof (intro conjI impI)
  obtain a s2 w2 where d: "dispatch dumps env tool_name inp s w = (a, s2, w2)"
    by (cases "dispatch dumps env tool_name inp s w") auto
  show "\<exists>j. fst (execute_tool dumps env tool_name inp s w) = dumps j"
  proof (cases a)
    case (Inl e)
    then show ?thesis using d by (auto simp: execute_tool_def)
  next
    case (Inr r)
    then have "dispatch dumps env tool_name inp s w = (Inr r, s2, w2)" using d by simp
    from dispatch_json [OF this] obtain j where "r = dumps j" ..
    then show ?thesis using d Inr by (auto simp: execute_tool_def)
  qed
next
  assume "dispatch dumps env tool_name inp s w = (Inl e, s1, w1)"
  then show "execute_tool dumps env tool_name inp s w = (dumps (error_payload (py_str e)), s1, w1)"
    by (simp add: execute_tool_def)
next
  assume "dispatch dumps env tool_name inp s w = (Inr r, s1, w1)"
  then show "execute_tool dumps env tool_name inp s w = (r, s1, w1)"
    by (simp add: execute_tool_def)
next
  assume "tool_name \<notin> set tool_names"
  then show "execute_tool dumps env tool_name inp s w
          = (dumps (error_payload (''Unknown tool: '' @ tool_name)), s, w)"
    by (simp add: execute_tool_def dispatch_unknown)
next
  show "error_payload (py_str e) = JObj [(''error'', JStr (py_str e))]"
    by (simp add: error_payload_def)
qed

text \<open>
  At the concrete environment: a \<^verbatim>\<open>place_bet\<close> call without its \<^verbatim>\<open>market_id\<close>
  key raises \<^verbatim>\<open>KeyError\<close> in the handler and comes back as the error object with the
  quoted key; a research call whose collaborator raises comes back as the error object
  with the exception's text; an unknown name comes back as the error object.
\<close>

theorem execute_tool_never_raises_witness:
  "execute_tool plain_dumps (fixed_env (\<lambda>m. Inr []) (Inl (Raised ''database is locked'')) (Inr []))
      ''place_bet'' no_input (new_bot False) ()
     = (plain_dumps (JObj [(''error'', JStr (CHR 0x27 # ''market_id'' @ [CHR 0x27]))]), new_bot False, ())
   \<and> execute_tool plain_dumps (fixed_env (\<lambda>m. Inr []) (Inl (Raised ''database is locked'')) (Inr []))
      ''research_market_and_save''
      (no_input\<lparr>ti_market_id := Some ''m'', ti_market_title := Some ''T''\<rparr>) (new_bot False) ()
     = (plain_dumps (JObj [(''error'', JStr ''database is locked'')]), new_bot False, ())
   \<and> execute_tool plain_dumps (fixed_env (\<lambda>m. Inr []) (Inl (Raised ''database is locked'')) (Inr []))
      ''get_balance'' no_input (new_bot False) ()
     = (plain_dumps (json_of_balance dry_balance), new_bot False, ())
   \<and> ''sell_everything'' \<notin> set tool_names
   \<and> execute_tool plain_dumps (fixed_env (\<lambda>m. Inr []) (Inl (Raised ''database is locked'')) (Inr []))
      ''sell_everything'' no_input (new_bot False) ()
     = (plain_dumps (JObj [(''error'', JStr ''Unknown tool: sell_everything'')]), new_bot False, ())"
  using execute_tool_never_raises
          [where dumps = plain_dumps
             and env = "fixed_env (\<lambda>m. Inr []) (Inl (Raised ''database is locked'')) (Inr [])"
             and tool_name = "''place_bet''" and inp = no_input and s = "new_bot False" and w = "()"
             and e = "KeyError ''market_id''" and ?s1.0 = "new_bot False" and ?w1.0 = "()"]
        execute_tool_never_raises
          [where dumps = plain_dumps
             and env = "fixed_env (\<lambda>m. Inr []) (Inl (Raised ''database is locked'')) (Inr [])"
             and tool_name = "''research_market_and_save''"
             and inp = "no_input\<lparr>ti_market_id := Some ''m'', ti_market_title := Some ''T''\<rparr>"
             and s = "new_bot False" and w = "()"
             and e = "Raised ''database is locked''" and ?s1.0 = "new_bot False" and ?w1.0 = "()"]
        execute_tool_never_raises
          [where dumps = plain_dumps
             and env = "fixed_env (\<lambda>m. Inr []) (Inl (Raised ''database is locked'')) (Inr [])"
             and tool_name = "''get_balance''" and inp = no_input and s = "new_bot False" and w = "()"
             and r = "plain_dumps (json_of_balance dry_balance)"
             and ?s1.0 = "new_bot False" and ?w1.0 = "()"]
        execute_tool_never_raises
          [where dumps = plain_dumps
             and env = "fixed_env (\<lambda>m. Inr []) (Inl (Raised ''database is locked'')) (Inr [])"
             and tool_name = "''sell_everything''" and inp = no_input and s = "new_bot False"
             and w = "()"]
  by (simp add: dispatch_def fixed_env_def new_bot_def no_input_def tool_names_def
      error_payload_def MAX_RESEARCH_PER_CYCLE_def)


section \<open>Theorems: the decision loop\<close>

lemma run_loop_final:
  assumes "iteration < max_iterations"
    and "client_messages_create env messages w = (Inr response_content, w1)"
    and "filter is_tool_use response_content = []"
  shows "run_loop dumps env iteration messages s w
           = (Inr (final_text response_content), iteration + 1, messages, s,
              save_summary env (dry_run s) (final_text response_content) w1)"
  using assms by (subst run_loop.simps) simp

lemma run_loop_oracle_raises:
  assumes "iteration < max_iterations"
    and "client_messages_create env messages w = (Inl e, w1)"
  shows "run_loop dumps env iteration messages s w = (Inl e, iteration + 1, messages, s, w1)"
  using assms by (subst run_loop.simps) simp

lemma run_loop_turns_bound:
  "iteration \<le> max_iterations \<Longrightarrow>
   fst (snd (run_loop dumps env iteration messages s w)) \<le> max_iterations"
proof (induction dumps env iteration messages s w rule: run_loop.induct)
  case (1 dumps env iteration messages s w)
  show ?case
  proof (cases "iteration < max_iterations")
    case False
    then show ?thesis using "1.prems" by (subst run_loop.simps) simp
  next
    case True
    obtain a w1 where o: "client_messages_create env messages w = (a, w1)"
      by (cases "client_messages_create env messages w") auto
    show ?thesis
    proof (cases a)
      case (Inl e)
      then show ?thesis using True o by (simp add: run_loop_oracle_raises)
    next
      case (Inr response_content)
      show ?thesis
      proof (cases "filter is_tool_use response_content = []")
        case nil: True
        then show ?thesis using True o Inr by (simp add: run_loop_final)
      next
        case tools: False
        obtain tr s2 w2 where
          e: "execute_tool_uses dumps env (filter is_tool_use response_content) [] s w1 = (tr, s2, w2)"
          by (cases "execute_tool_uses dumps env (filter is_tool_use response_content) [] s w1") auto
        have eq: "run_loop dumps env iteration messages s w
                  = run_loop dumps env (iteration + 1)
                      (messages @ [\<lparr>role = ''assistant'', content = Block_content response_content\<rparr>,
                                   \<lparr>role = ''user'', content = Result_content tr\<rparr>]) s2 w2"
          by (subst run_loop.simps) (simp add: True o Inr tools e Let_def)
        have "iteration + 1 \<le> max_iterations" using True by simp
        then show ?thesis
          unfolding eq using "1.IH" True o Inr tools e by auto
      qed
    qed
  qed
qed

lemma run_loop_ceiling:
  "\<forall>m w'. \<exists>response_content w1.
      client_messages_create env m w' = (Inr response_content, w1)
    \<and> filter is_tool_use response_content \<noteq> [] \<Longrightarrow>
   iteration \<le> max_iterations \<Longrightarrow>
         fst (run_loop dumps env iteration messages s w) = Inr ceiling_report
       \<and> fst (snd (run_loop dumps env iteration messages s w)) = max_iterations
       \<and> length (fst (snd (snd (run_loop dumps env iteration messages s w))))
           = length messages + 2 * (max_iterations - iteration)"
proof (induction dumps env iteration messages s w rule: run_loop.induct)
  case (1 dumps env iteration messages s w)
  show ?case
  proof (cases "iteration < max_iterations")
    case False
    then show ?thesis using "1.prems"(2) by (subst (1 2 3) run_loop.simps) simp
  next
    case True
    obtain response_content w1 where
      o: "client_messages_create env messages w = (Inr response_content, w1)"
      and tools: "filter is_tool_use response_content \<noteq> []"
      using "1.prems"(1) by blast
    obtain tr s2 w2 where
      e: "execute_tool_uses dumps env (filter is_tool_use response_content) [] s w1 = (tr, s2, w2)"
      by (cases "execute_tool_uses dumps env (filter is_tool_use response_content) [] s w1") auto
    have eq: "run_loop dumps env iteration messages s w
              = run_loop dumps env (iteration + 1)
                  (messages @ [\<lparr>role = ''assistant'', content = Block_content response_content\<rparr>,
                               \<lparr>role = ''user'', content = Result_content tr\<rparr>]) s2 w2"
      by (subst run_loop.simps) (simp add: True o tools e Let_def)
    have le: "iteration + 1 \<le> max_iterations" using True by simp
    have ih: "fst (run_loop dumps env (iteration + 1)
                  (messages @ [\<lparr>role = ''assistant'', content = Block_content response_content\<rparr>,
                               \<lparr>role = ''user'', content = Result_content tr\<rparr>]) s2 w2) = Inr ceiling_report
       \<and> fst (snd (run_loop dumps env (iteration + 1)
                  (messages @ [\<lparr>role = ''assistant'', content = Block_content response_content\<rparr>,
                               \<lparr>role = ''user'', content = Result_content tr\<rparr>]) s2 w2)) = max_iterations
       \<and> length (fst (snd (snd (run_loop dumps env (iteration + 1)
                  (messages @ [\<lparr>role = ''assistant'', content = Block_content response_content\<rparr>,
                               \<lparr>role = ''user'', content = Result_content tr\<rparr>]) s2 w2))))
           = length (messages @ [\<lparr>role = ''assistant'', content = Block_content response_content\<rparr>,
                               \<lparr>role = ''user'', content = Result_content tr\<rparr>])
             + 2 * (max_iterations - (iteration + 1))"
      using "1.IH" True o tools e "1.prems"(1) le by auto
    show ?thesis unfolding eq using ih True by auto
  qed
qed


text \<open>
  C5. \<^verbatim>\<open>run_cycle\<close> returns for every behaviour of the oracle and of the tools, after
  at most 20 turns. When a response holds no tool-use block the loop returns the text of
  that response as the report (after saving it). When every response holds a tool call,
  the loop makes exactly 20 turns, appending two messages per turn to the first one, and
  returns the report \<open>Maximum iterations reached\<close>.
\<close>

theorem run_cycle_terminates_within_ceiling:
  "max_iterations = 20
   \<and> fst (snd (run_cycle dumps env s w)) \<le> 20
   \<and> (iteration < max_iterations
      \<and> client_messages_create env messages w = (Inr response_content, w1)
      \<and> filter is_tool_use response_content = [] \<longrightarrow>
        run_loop dumps env iteration messages s w
          = (Inr (final_text response_content), iteration + 1, messages, s,
             save_summary env (dry_run s) (final_text response_content) w1))
   \<and> ((\<forall>m w'. \<exists>response_content w1.
          client_messages_create env m w' = (Inr response_content, w1)
        \<and> filter is_tool_use response_content \<noteq> []) \<longrightarrow>
        fst (run_cycle dumps env s w) = Inr ceiling_report
      \<and> fst (snd (run_cycle dumps env s w)) = 20
      \<and> length (fst (snd (snd (run_cycle dumps env s w)))) = 41)
   \<and> ceiling_report
       = [CHR 0xE2, CHR 0x9A, CHR 0xA0, CHR 0xEF, CHR 0xB8, CHR 0x8F] @ '' Maximum iterations reached''"
proof (intro conjI impI)
  show "max_iterations = 20" by (simp add: max_iterations_def)
  obtain ls w0 where l: "load_last_summary env w = (ls, w0)"
    by (cases "load_last_summary env w") auto
  have "fst (snd (run_loop dumps env 0
          [\<lparr>role = ''user'', content = Text_content (build_user_message ls)\<rparr>] s w0)) \<le> max_iterations"
    by (rule run_loop_turns_bound) simp
  then show "fst (snd (run_cycle dumps env s w)) \<le> 20"
    by (simp add: run_cycle_def l max_iterations_def)
  show "ceiling_report
       = [CHR 0xE2, CHR 0x9A, CHR 0xA0, CHR 0xEF, CHR 0xB8, CHR 0x8F] @ '' Maximum iterations reached''"
    by (simp add: ceiling_report_def)
next
  assume "iteration < max_iterations
      \<and> client_messages_create env messages w = (Inr response_content, w1)
      \<and> filter is_tool_use response_content = []"
  then show "run_loop dumps env iteration messages s w
          = (Inr (final_text response_content), iteration + 1, messages, s,
             save_summary env (dry_run s) (final_text response_content) w1)"
    by (simp add: run_loop_final)
next
  assume always: "\<forall>m w'. \<exists>response_content w1.
          client_messages_create env m w' = (Inr response_content, w1)
        \<and> filter is_tool_use response_content \<noteq> []"
  obtain ls w0 where l: "load_last_summary env w = (ls, w0)"
    by (cases "load_last_summary env w") auto
  have c: "fst (run_loop dumps env 0
             [\<lparr>role = ''user'', content = Text_content (build_user_message ls)\<rparr>] s w0)
             = Inr ceiling_report
       \<and> fst (snd (run_loop dumps env 0
             [\<lparr>role = ''user'', content = Text_content (build_user_message ls)\<rparr>] s w0))
             = max_iterations
       \<and> length (fst (snd (snd (run_loop dumps env 0
             [\<lparr>role = ''user'', content = Text_content (build_user_message ls)\<rparr>] s w0))))
           = length [\<lparr>role = ''user'', content = Text_content (build_user_message ls)\<rparr>]
             + 2 * (max_iterations - 0)"
    using always by (rule run_loop_ceiling) simp
  show "fst (run_cycle dumps env s w) = Inr ceiling_report"
    using c by (simp add: run_cycle_def l)
  show "fst (snd (run_cycle dumps env s w)) = 20"
    using c by (simp add: run_cycle_def l max_iterations_def)
  show "length (fst (snd (snd (run_cycle dumps env s w)))) = 41"
    using c by (simp add: run_cycle_def l max_iterations_def)
qed

text \<open>
  At the concrete environment: an oracle that asks for the balance on every turn ends
  the cycle at the ceiling after 20 turns, and an oracle that answers with a text at once
  ends it after one turn with that text.
\<close>

theorem run_cycle_terminates_within_ceiling_witness:
  "fst (run_cycle plain_dumps
          (fixed_env (\<lambda>m. Inr [Tool_use_block ''id'' ''get_balance'' no_input]) (Inr []) (Inr []))
          (new_bot True) ()) = Inr ceiling_report
   \<and> fst (snd (run_cycle plain_dumps
          (fixed_env (\<lambda>m. Inr [Tool_use_block ''id'' ''get_balance'' no_input]) (Inr []) (Inr []))
          (new_bot True) ())) = 20
   \<and> run_cycle plain_dumps
          (fixed_env (\<lambda>m. Inr [Text_block ''All '', Other_block, Text_block ''done'']) (Inr []) (Inr []))
          (new_bot True) ()
       = (Inr ''All done'', 1,
          [\<lparr>role = ''user'',
            content = Text_content ''Start this trading cycle. (First run, no previous summary)''\<rparr>],
          new_bot True, ())"
proof -
  let ?busy = "fixed_env (\<lambda>m. Inr [Tool_use_block ''id'' ''get_balance'' no_input]) (Inr []) (Inr [])"
  let ?quiet = "fixed_env (\<lambda>m. Inr [Text_block ''All '', Other_block, Text_block ''done'']) (Inr []) (Inr [])"
  let ?first = "[\<lparr>role = ''user'',
            content = Text_content ''Start this trading cycle. (First run, no previous summary)''\<rparr>]"
  have busy: "fst (run_cycle plain_dumps ?busy (new_bot True) ()) = Inr ceiling_report
            \<and> fst (snd (run_cycle plain_dumps ?busy (new_bot True) ())) = 20"
    using run_cycle_terminates_within_ceiling
            [where dumps = plain_dumps and env = ?busy and s = "new_bot True" and w = "()"
               and iteration = 20]
    by (simp add: fixed_env_def)
  have "run_loop plain_dumps ?quiet 0 ?first (new_bot True) ()
          = (Inr ''All done'', 1, ?first, new_bot True, ())"
    using run_cycle_terminates_within_ceiling
            [where dumps = plain_dumps and env = ?quiet and s = "new_bot True" and w = "()"
               and iteration = 0 and messages = ?first
               and response_content = "[Text_block ''All '', Other_block, Text_block ''done'']"
               and ?w1.0 = "()"]
    by (simp add: fixed_env_def max_iterations_def)
  then have quiet: "run_cycle plain_dumps ?quiet (new_bot True) ()
                      = (Inr ''All done'', 1, ?first, new_bot True, ())"
    by (simp add: run_cycle_def fixed_env_def build_user_message_def)
  from busy quiet show ?thesis by simp
qed


section \<open>Theorems: the research limit\<close>

lemma counting_fields:
  "date_today (counting env) = (\<lambda>(w, c). date_today env w)"
  "load_last_summary (counting env) = keep_count (load_last_summary env)"
  "save_summary (counting env) = (\<lambda>d t (w, c). (save_summary env d t w, c))"
  "client_messages_create (counting env) = (\<lambda>m. keep_count (client_messages_create env m))"
  "markets_get_markets_list (counting env) = (\<lambda>l q c. keep_count (markets_get_markets_list env l q c))"
  "markets_get_market_detail (counting env) = (\<lambda>i. keep_count (markets_get_market_detail env i))"
  "research_get_research_result (counting env) = (\<lambda>i. keep_count (research_get_research_result env i))"
  "research_research_market_and_save (counting env)
     = (\<lambda>i t f. count_research (research_research_market_and_save env i t f))"
  "account_get_balance (counting env) = keep_count (account_get_balance env)"
  "account_get_my_positions (counting env) = keep_count (account_get_my_positions env)"
  "trader_buy (counting env) = (\<lambda>g u a. keep_count (trader_buy env g u a))"
  by (simp_all add: counting_def)

lemma keep_count_snd: "keep_count f cw = (x, cw1) \<Longrightarrow> snd cw1 = snd cw"
  by (auto simp: keep_count_def split: prod.splits)

lemma count_research_returns:
  "count_research f cw = (x, cw1) \<Longrightarrow>
   research_returns cw1 = research_returns cw + (case x of Inl e \<Rightarrow> 0 | Inr r \<Rightarrow> 1)"
  by (auto simp: count_research_def research_returns_def split: prod.splits sum.splits)

lemma bet_snapshot_counting:
  "bet_snapshot (counting env) s cw = (x, cw1) \<Longrightarrow> snd cw1 = snd cw"
  by (auto simp: bet_snapshot_def counting_fields split: if_splits prod.splits sum.splits
      dest!: keep_count_snd)

lemma submit_bet_counting:
  "submit_bet dumps (counting env) market side amount s cw = (x, s1, cw1) \<Longrightarrow>
   snd cw1 = snd cw \<and> research_count s1 = research_count s"
  by (auto simp: submit_bet_def counting_fields Let_def split: if_splits prod.splits sum.splits
      dest!: keep_count_snd)

lemma execute_bet_counting:
  assumes "execute_bet dumps (counting env) market_id side amount s cw = (x, s1, cw1)"
  shows "snd cw1 = snd cw \<and> research_count s1 = research_count s"
proof -
  obtain a cw2 where bs: "bet_snapshot (counting env) s cw = (a, cw2)"
    by (cases "bet_snapshot (counting env) s cw") auto
  note c2 = bet_snapshot_counting [OF bs]
  show ?thesis
  proof (cases a)
    case (Inl e)
    then show ?thesis using assms bs c2 by (simp add: execute_bet_def)
  next
    case (Inr bp)
    obtain b cw3 where rr: "research_get_research_result (counting env) market_id cw2 = (b, cw3)"
      by (cases "research_get_research_result (counting env) market_id cw2") auto
    have c3: "snd cw3 = snd cw"
      using rr c2 keep_count_snd by (fastforce simp: counting_fields)
    show ?thesis
    proof (cases b)
      case (Inl e)
      then show ?thesis using assms bs Inr rr c3 by (simp add: execute_bet_def case_prod_beta)
    next
      case rs: (Inr research)
      obtain c cw4 where md: "markets_get_market_detail (counting env) market_id cw3 = (c, cw4)"
        by (cases "markets_get_market_detail (counting env) market_id cw3") auto
      have c4: "snd cw4 = snd cw"
        using md c3 keep_count_snd by (fastforce simp: counting_fields)
      show ?thesis
        using assms bs Inr rr rs md c3 c4
        by (auto simp: execute_bet_def Let_def case_prod_beta
            split: if_splits sum.splits option.splits)
           (metis submit_bet_counting prod.collapse)+
    qed
  qed
qed

lemma counters_agree_refl: "counters_agree s cw s cw"
  by (simp add: counters_agree_def)

lemma counters_agree_same: "snd cw1 = snd cw \<Longrightarrow> research_count s1 = research_count s \<Longrightarrow> counters_agree s cw s1 cw1"
  by (simp add: counters_agree_def research_returns_def)

lemma counters_agree_trans:
  "counters_agree s cw s1 cw1 \<Longrightarrow> counters_agree s1 cw1 s2 cw2 \<Longrightarrow> counters_agree s cw s2 cw2"
  by (auto simp: counters_agree_def)

lemma dispatch_counting:
  assumes "dispatch dumps (counting env) tool_name inp s cw = (x, s1, cw1)"
  shows "counters_agree s cw s1 cw1"
proof (cases "tool_name = ''place_bet''")
  case True
  then show ?thesis
    using assms
    by (auto simp: dispatch_def counters_agree_refl split: option.splits
        dest!: execute_bet_counting intro: counters_agree_same)
next
  case np: False
  show ?thesis
  proof (cases "tool_name = ''research_market_and_save''")
    case True
    then show ?thesis
      using assms
      by (auto simp: dispatch_def counting_fields counters_agree_def MAX_RESEARCH_PER_CYCLE_def
          split: if_splits option.splits prod.splits sum.splits dest!: count_research_returns)
  next
    case False
    then show ?thesis
      using assms np
      by (auto simp: dispatch_def counting_fields counters_agree_refl
          split: if_splits option.splits prod.splits sum.splits
          dest!: keep_count_snd intro: counters_agree_same)
  qed
qed

lemma execute_tool_counting:
  assumes "execute_tool dumps (counting env) tool_name inp s cw = (x, s1, cw1)"
  shows "counters_agree s cw s1 cw1"
proof -
  obtain a s2 cw2 where d: "dispatch dumps (counting env) tool_name inp s cw = (a, s2, cw2)"
    by (cases "dispatch dumps (counting env) tool_name inp s cw") auto
  then have "s1 = s2 \<and> cw1 = cw2" using assms by (cases a) (simp_all add: execute_tool_def)
  then show ?thesis using dispatch_counting [OF d] by simp
qed

lemma execute_tool_uses_counting_aux:
  "cenv = counting env \<Longrightarrow>
   execute_tool_uses dumps cenv tool_uses results s cw = (x, s1, cw1) \<Longrightarrow>
   counters_agree s cw s1 cw1"
proof (induction dumps cenv tool_uses results s cw rule: execute_tool_uses.induct)
  case (1 dumps cenv tool_results s w)
  then show ?case by (simp add: counters_agree_refl)
next
  case (2 dumps cenv i n inp rest tool_results s w)
  obtain r s2 cw2 where e: "execute_tool dumps cenv n inp s w = (r, s2, cw2)"
    by (cases "execute_tool dumps cenv n inp s w") auto
  have "counters_agree s2 cw2 s1 cw1"
    using "2.IH" "2.prems" e by auto
  moreover have "counters_agree s w s2 cw2"
    using execute_tool_counting e "2.prems"(1) by blast
  ultimately show ?case using counters_agree_trans by blast
qed simp_all

lemma execute_tool_uses_counting:
  "execute_tool_uses dumps (counting env) tool_uses results s cw = (x, s1, cw1) \<Longrightarrow>
   counters_agree s cw s1 cw1"
  using execute_tool_uses_counting_aux [OF refl] .





subsection \<open>The counting environment behaves as the environment it wraps\<close>






















end
